theory Spec2Isabelle
  imports Complex_Main "HOL-Library.Multiset"
begin

section \<open>Numbers\<close>

text \<open>
  The notebook computes on numpy arrays of 64-bit floats (IEEE 754 binary64). A value is
  a finite number, the negative zero, one of the two infinities, or NaN; \<open>Finite 0\<close> is
  the positive zero. numpy's arithmetic does not raise on overflow, on division by zero
  or on an invalid operation: it emits a RuntimeWarning and returns an infinity or NaN.
  The finite values of an array are binary64 numbers; the operations below round their
  results to binary64.
\<close>

datatype float64 = Finite real | NegZero | PosInf | NegInf | NaN

fun is_finite :: "float64 \<Rightarrow> bool" where
  "is_finite (Finite a) = True"
| "is_finite NegZero = True"
| "is_finite PosInf = False"
| "is_finite NegInf = False"
| "is_finite NaN = False"

fun is_nan :: "float64 \<Rightarrow> bool" where
  "is_nan NaN = True"
| "is_nan x = False"

fun is_inf :: "float64 \<Rightarrow> bool" where
  "is_inf PosInf = True"
| "is_inf NegInf = True"
| "is_inf x = False"

fun is_zero :: "float64 \<Rightarrow> bool" where
  "is_zero (Finite a) = (a = 0)"
| "is_zero NegZero = True"
| "is_zero x = False"

text \<open>The sign bit and the magnitude of a value (the magnitude is used of finite values only).\<close>

fun is_neg :: "float64 \<Rightarrow> bool" where
  "is_neg (Finite a) = (a < 0)"
| "is_neg NegZero = True"
| "is_neg PosInf = False"
| "is_neg NegInf = True"
| "is_neg NaN = False"

fun mag :: "float64 \<Rightarrow> real" where
  "mag (Finite a) = \<bar>a\<bar>"
| "mag NegZero = 0"
| "mag PosInf = 0"
| "mag NegInf = 0"
| "mag NaN = 0"

definition signed_zero :: "bool \<Rightarrow> float64" where
  "signed_zero neg = (if neg then NegZero else Finite 0)"

definition infinity :: "bool \<Rightarrow> float64" where
  "infinity neg = (if neg then NegInf else PosInf)"

subsection \<open>Rounding\<close>

text \<open>
  Every arithmetic operation returns its exact result rounded to the nearest binary64
  value, ties to the value with an even significand. A binary64 value has a significand
  of 53 bits; the unit in the last place of a number \<open>a\<close> is \<open>2 powi expo a\<close>, which
  stops shrinking at \<open>2 powi (- 1074)\<close> (subnormal numbers). A result that rounds to
  \<open>2 ^ 1024\<close> or more overflows to an infinity, one that rounds to zero keeps its sign.
\<close>

definition round_even :: "real \<Rightarrow> int" where
  "round_even y =
     (let f = \<lfloor>y\<rfloor>
      in if y - of_int f < 1/2 then f
         else if 1/2 < y - of_int f then f + 1
         else if even f then f else f + 1)"

definition expo :: "real \<Rightarrow> int" where
  "expo a = max (\<lfloor>log 2 a\<rfloor> - 52) (- 1074)"

text \<open>Rounding a magnitude \<open>a \<ge> 0\<close> that carries the sign \<open>neg\<close>.\<close>

definition round_mag :: "bool \<Rightarrow> real \<Rightarrow> float64" where
  "round_mag neg a =
     (if a = 0 then signed_zero neg
      else let e = expo a;
               y = of_int (round_even (a / 2 powi e)) * 2 powi e
           in if 2 ^ 1024 \<le> y then infinity neg
              else if y = 0 then signed_zero neg
              else Finite (if neg then - y else y))"

text \<open>Rounding a sum: an exact zero sum of finite values is the positive zero.\<close>

definition round_real :: "real \<Rightarrow> float64" where
  "round_real s = (if s = 0 then Finite 0 else round_mag (s < 0) \<bar>s\<bar>)"

subsection \<open>Operations\<close>

fun f_neg :: "float64 \<Rightarrow> float64" where
  "f_neg (Finite a) = (if a = 0 then NegZero else Finite (- a))"
| "f_neg NegZero = Finite 0"
| "f_neg PosInf = NegInf"
| "f_neg NegInf = PosInf"
| "f_neg NaN = NaN"

fun f_add :: "float64 \<Rightarrow> float64 \<Rightarrow> float64" where
  "f_add NaN y = NaN"
| "f_add x NaN = NaN"
| "f_add PosInf NegInf = NaN"
| "f_add NegInf PosInf = NaN"
| "f_add PosInf y = PosInf"
| "f_add x PosInf = PosInf"
| "f_add NegInf y = NegInf"
| "f_add x NegInf = NegInf"
| "f_add NegZero NegZero = NegZero"
| "f_add NegZero (Finite b) = round_real b"
| "f_add (Finite a) NegZero = round_real a"
| "f_add (Finite a) (Finite b) = round_real (a + b)"

definition f_sub :: "float64 \<Rightarrow> float64 \<Rightarrow> float64" where
  "f_sub a b = f_add a (f_neg b)"

text \<open>
  The sign of a product or a quotient is the exclusive or of the signs of the operands,
  also when the result is a zero or an infinity. \<open>0 * inf\<close>, \<open>inf / inf\<close> and \<open>0 / 0\<close> are
  NaN; a nonzero finite value divided by a zero is an infinity.
\<close>

definition f_mul :: "float64 \<Rightarrow> float64 \<Rightarrow> float64" where
  "f_mul x y =
     (let neg = (is_neg x \<noteq> is_neg y)
      in if is_nan x \<or> is_nan y then NaN
         else if is_inf x \<or> is_inf y then (if is_zero x \<or> is_zero y then NaN else infinity neg)
         else round_mag neg (mag x * mag y))"

definition f_div :: "float64 \<Rightarrow> float64 \<Rightarrow> float64" where
  "f_div x y =
     (let neg = (is_neg x \<noteq> is_neg y)
      in if is_nan x \<or> is_nan y then NaN
         else if is_inf x then (if is_inf y then NaN else infinity neg)
         else if is_inf y then signed_zero neg
         else if is_zero y then (if is_zero x then NaN else infinity neg)
         else round_mag neg (mag x / mag y))"

fun f_sqrt :: "float64 \<Rightarrow> float64" where
  "f_sqrt (Finite a) = (if a < 0 then NaN else round_mag False (sqrt a))"
| "f_sqrt NegZero = NegZero"
| "f_sqrt PosInf = PosInf"
| "f_sqrt NegInf = NaN"
| "f_sqrt NaN = NaN"

section \<open>Arrays\<close>

text \<open>
  A dataset is a two-dimensional float64 array of shape \<open>(length (rows X), ncols X)\<close>, as
  the notebook's datasets are. The column count is a field of its own because an array
  without rows still has one. A one-dimensional array (the fitted statistics) is a list.
\<close>

record array2d =
  ncols :: nat
  rows :: "float64 list list"

definition nrows :: "array2d \<Rightarrow> nat" where
  "nrows X = length (rows X)"

definition wf_array :: "array2d \<Rightarrow> bool" where
  "wf_array X = list_all (\<lambda>r. length r = ncols X) (rows X)"

definition column :: "array2d \<Rightarrow> nat \<Rightarrow> float64 list" where
  "column X c = map (\<lambda>r. r ! c) (rows X)"

text \<open>
  \<open>np.sum(X, axis=0)\<close>: the rows are added up elementwise, from the first to the last,
  starting from zeros. This is the order of numpy's loop over an array stored row by row;
  where numpy groups the additions of a long column differently, the sums can differ in
  their rounding, which is why the theorem on the values stored by \<open>fit\<close> is stated for
  every order and grouping (\<open>float_sum_of\<close> below).
\<close>

definition np_sum_axis0 :: "array2d \<Rightarrow> float64 list" where
  "np_sum_axis0 X = foldl (\<lambda>acc r. map2 f_add acc r) (replicate (ncols X) (Finite 0)) (rows X)"

text \<open>
  \<open>np.mean(X, axis=0)\<close>: the column sums divided by the number of rows. The count is
  converted to float64, which is exact for every array that fits in memory.
\<close>

definition np_mean_axis0 :: "array2d \<Rightarrow> float64 list" where
  "np_mean_axis0 X = map (\<lambda>s. f_div s (Finite (real (nrows X)))) (np_sum_axis0 X)"

text \<open>
  \<open>np.std(X, axis=0)\<close> with the default \<open>ddof=0\<close>: numpy subtracts the column means from
  every row, squares, sums the squares along axis 0, divides by the number of rows and
  takes the square root.
\<close>

definition np_std_axis0 :: "array2d \<Rightarrow> float64 list" where
  "np_std_axis0 X =
     (let arrmean = np_mean_axis0 X;
          x = map (\<lambda>r. map2 f_sub r arrmean) (rows X);
          x2 = map (map (\<lambda>v. f_mul v v)) x;
          ret = np_sum_axis0 \<lparr>ncols = ncols X, rows = x2\<rparr>
      in map (\<lambda>s. f_sqrt (f_div s (Finite (real (nrows X))))) ret)"

subsection \<open>Binary operators with broadcasting\<close>

datatype py_error = TypeError | ValueError

text \<open>
  The trailing dimensions of the two operands are compatible when they are equal or
  one of them is 1; otherwise numpy raises ValueError (operands could not be broadcast
  together).
\<close>

definition broadcast_cols :: "nat \<Rightarrow> nat \<Rightarrow> nat option" where
  "broadcast_cols m k =
     (if m = k then Some m else if m = 1 then Some k else if k = 1 then Some m else None)"

definition stretch :: "nat \<Rightarrow> 'a list \<Rightarrow> 'a list" where
  "stretch k v = (case v of [x] \<Rightarrow> replicate k x | _ \<Rightarrow> v)"

text \<open>
  \<open>X op other\<close> for a two-dimensional \<open>X\<close> and an attribute of the transformer, which is
  either a one-dimensional array or Python's None. With None numpy works elementwise on
  Python objects: the first element raises TypeError (unsupported operand types), and an
  array without elements yields an array of the same shape.
\<close>

definition np_binop ::
  "(float64 \<Rightarrow> float64 \<Rightarrow> float64) \<Rightarrow> array2d \<Rightarrow> float64 list option \<Rightarrow> py_error + array2d" where
  "np_binop f X other =
     (case other of
        None \<Rightarrow> if nrows X * ncols X = 0 then Inr X else Inl TypeError
      | Some v \<Rightarrow>
          (case broadcast_cols (ncols X) (length v) of
             None \<Rightarrow> Inl ValueError
           | Some k \<Rightarrow>
               Inr \<lparr>ncols = k, rows = map (\<lambda>r. map2 f (stretch k r) (stretch k v)) (rows X)\<rparr>))"

section \<open>The transformer\<close>

text \<open>
  \<^verbatim>\<open>
  class ZScoreTransformer(BaseEstimator, TransformerMixin):
      def __init__(self):
          self.mean_ = None
          self.std_ = None
  \<close>
  Instances live in an object store indexed by references, so that a method can return
  the reference it was called on. The attributes \<^verbatim>\<open>mean_\<close> and \<^verbatim>\<open>std_\<close> are the fields
  \<open>mean_attr\<close> and \<open>std_attr\<close> (an identifier cannot end in an underscore here).
\<close>

record ZScoreTransformer =
  mean_attr :: "float64 list option"
  std_attr :: "float64 list option"

type_synonym ref = nat
type_synonym store = "ref \<Rightarrow> ZScoreTransformer"

definition init :: ZScoreTransformer where
  "init = \<lparr>mean_attr = None, std_attr = None\<rparr>"

definition fresh_store :: store where
  "fresh_store = (\<lambda>_. init)"

text \<open>
  \<^verbatim>\<open>
      def fit(self, X, y=None):
          self.mean_ = np.mean(X, axis=0)
          self.std_ = np.std(X, axis=0)
          return self
  \<close>
\<close>

definition fit :: "store \<Rightarrow> ref \<Rightarrow> array2d \<Rightarrow> 'y option \<Rightarrow> py_error + (ref \<times> store)" where
  "fit h self X y =
     (let h1 = h(self := (h self)\<lparr>mean_attr := Some (np_mean_axis0 X)\<rparr>);
          h2 = h1(self := (h1 self)\<lparr>std_attr := Some (np_std_axis0 X)\<rparr>)
      in Inr (self, h2))"

text \<open>
  \<^verbatim>\<open>
      def transform(self, X):
          return (X - self.mean_) / self.std_
  \<close>
\<close>

definition transform :: "store \<Rightarrow> ref \<Rightarrow> array2d \<Rightarrow> py_error + (array2d \<times> store)" where
  "transform h self X =
     (case np_binop f_sub X (mean_attr (h self)) of
        Inl e \<Rightarrow> Inl e
      | Inr D \<Rightarrow>
          (case np_binop f_div D (std_attr (h self)) of
             Inl e \<Rightarrow> Inl e
           | Inr Z \<Rightarrow> Inr (Z, h)))"

text \<open>
  \<^verbatim>\<open>
      def fit_transform(self, X, y=None):
          return self.fit(X).transform(X)
  \<close>
\<close>

definition fit_transform :: "store \<Rightarrow> ref \<Rightarrow> array2d \<Rightarrow> 'y option \<Rightarrow> py_error + (array2d \<times> store)" where
  "fit_transform h self X y =
     (case fit h self X (None :: 'y option) of
        Inl e \<Rightarrow> Inl e
      | Inr (r, h') \<Rightarrow> transform h' r X)"

section \<open>Reference statistics\<close>

text \<open>
  The statistics as the specification words them, on a column of real numbers and in
  exact arithmetic: the arithmetic mean, and the population standard deviation, whose
  divisor is the number of values (not that number minus one).
\<close>

definition arith_mean :: "real list \<Rightarrow> real" where
  "arith_mean xs = sum_list xs / real (length xs)"

definition pop_std :: "real list \<Rightarrow> real" where
  "pop_std xs = sqrt (sum_list (map (\<lambda>x. (x - arith_mean xs)\<^sup>2) xs) / real (length xs))"

text \<open>
  A float64 sum of a list of values: the values are added two at a time, every addition
  rounded, in any order and any grouping, possibly starting from a zero. numpy chooses
  the order and the grouping by the memory layout and the length of the array; the sum
  from the first to the last value, starting from the positive zero, is one of them.
\<close>

inductive float_sum_of :: "float64 list \<Rightarrow> float64 \<Rightarrow> bool" where
  empty_pos: "float_sum_of [] (Finite 0)"
| empty_neg: "float_sum_of [] NegZero"
| single: "float_sum_of [x] x"
| add: "float_sum_of xs s \<Longrightarrow> float_sum_of ys t \<Longrightarrow> float_sum_of (xs @ ys) (f_add s t)"
| reorder: "float_sum_of xs s \<Longrightarrow> mset xs = mset ys \<Longrightarrow> float_sum_of ys s"

section \<open>Rounding at given values\<close>

lemma round_even_of_int [simp]: "round_even (of_int n) = n"
  by (simp add: round_even_def)

lemma round_even_eqI:
  "of_int m - 1/2 < y \<Longrightarrow> y < of_int m + 1/2 \<Longrightarrow> round_even y = m"
proof -
  assume a: "of_int m - 1/2 < y" "y < of_int m + 1/2"
  have "\<lfloor>y\<rfloor> = m \<or> \<lfloor>y\<rfloor> = m - 1" using a by linarith
  then show ?thesis
  proof
    assume "\<lfloor>y\<rfloor> = m" then show ?thesis using a by (simp add: round_even_def)
  next
    assume "\<lfloor>y\<rfloor> = m - 1" then show ?thesis using a by (simp add: round_even_def)
  qed
qed


lemma two_powi_pos [simp]: "0 < (2::real) powi n"
  by (simp add: zero_less_power_int)

lemma two_powr_int: "2 powr real_of_int n = (2::real) powi n"
  by (rule powr_real_of_int') simp_all

lemma expo_eqI:
  assumes "2 powi (e + 52) \<le> a" "a < 2 powi (e + 53)" "- 1074 \<le> e"
  shows "expo a = e"
proof -
  have pos: "0 < a" using assms(1) two_powi_pos [of "e + 52"] by linarith
  have "\<lfloor>log 2 a\<rfloor> = e + 52"
    using assms(1,2) pos by (simp add: floor_log_eq_powr_iff add.commute flip: two_powr_int)
  then show ?thesis using assms(3) by (simp add: expo_def)
qed

lemma expo_le:
  assumes "0 < a" "a < 2 powi (j + 53)" "- 1074 \<le> j"
  shows "expo a \<le> j"
proof -
  have "log 2 a < log 2 (2 powi (j + 53))"
    using assms(1,2) by (simp add: log_less_cancel_iff)
  also have "\<dots> = real_of_int (j + 53)"
    by (simp only: flip: two_powr_int) simp
  finally have "\<lfloor>log 2 a\<rfloor> < j + 53" by linarith
  then show ?thesis using assms(3) by (simp add: expo_def)
qed

lemma floor_le_round_even: "\<lfloor>y\<rfloor> \<le> round_even y"
  by (simp add: round_even_def Let_def)

lemma two_powi_mono: "m \<le> n \<Longrightarrow> (2::real) powi m \<le> 2 powi n"
  by (rule power_int_increasing) simp_all

lemma two_powi_add: "(2::real) powi (m + n) = 2 powi m * 2 powi n"
  by (rule power_int_add) simp

lemma two_powi_diff: "(2::real) powi (m - n) = 2 powi m / 2 powi n"
  by (simp add: power_int_diff)

lemma round_mag_dyadic:
  assumes "0 < k" "k < 2 ^ 53" "- 1074 \<le> j" "real k * 2 powi j < 2 ^ 1024"
  shows "round_mag neg (real k * 2 powi j)
           = Finite (if neg then - (real k * 2 powi j) else real k * 2 powi j)"
proof -
  define a where "a = real k * 2 powi j"
  define e where "e = expo a"
  have pos: "0 < a" using assms(1) by (simp add: a_def)
  have "real k < 2 ^ 53" using assms(2) by (metis of_nat_less_iff of_nat_numeral of_nat_power)
  then have "a < 2 ^ 53 * 2 powi j" by (simp add: a_def)
  also have "\<dots> = 2 powi (j + 53)" by (simp add: two_powi_add)
  finally have up: "a < 2 powi (j + 53)" .
  have ej: "e \<le> j" unfolding e_def using pos up assms(3) by (rule expo_le)
  have lt: "a < 2 ^ 1024" using assms(4) by (simp add: a_def)
  have "a / 2 powi e = real k * 2 powi (j - e)" by (simp add: a_def two_powi_diff)
  also have "\<dots> = real k * 2 ^ nat (j - e)" using ej by (simp add: power_int_nonneg_exp)
  also have "\<dots> = of_int (int k * 2 ^ nat (j - e))" by simp
  finally have "round_even (a / 2 powi e) = int k * 2 ^ nat (j - e)"
    by (simp only: round_even_of_int)
  then have "of_int (round_even (a / 2 powi e)) * 2 powi e = real k * 2 ^ nat (j - e) * 2 powi e"
    by simp
  also have "\<dots> = real k * (2 powi (j - e) * 2 powi e)" using ej by (simp add: power_int_nonneg_exp)
  also have "\<dots> = a" by (simp add: a_def flip: two_powi_add)
  finally have y: "of_int (round_even (a / 2 powi e)) * 2 powi e = a" .
  show ?thesis
    using pos lt y unfolding a_def [symmetric] by (simp add: round_mag_def Let_def e_def)
qed

lemma round_mag_nat:
  assumes "a \<in> \<nat>" "0 < a" "a < 9007199254740992"
  shows "round_mag neg a = Finite (if neg then - a else a)"
proof -
  from assms(1) obtain k where a: "a = real k" by (auto elim: Nats_cases)
  have "0 < k" "k < 2 ^ 53" using assms(2,3) a by simp_all
  then show ?thesis
    using round_mag_dyadic [of k 0 neg] assms(3) by (simp add: a)
qed

lemma round_real_int:
  assumes "a \<in> \<int>" "\<bar>a\<bar> < 9007199254740992"
  shows "round_real a = Finite a"
proof (cases "a = 0")
  case True then show ?thesis by (simp add: round_real_def)
next
  case False
  from assms(1) obtain n where "a = of_int n" by (auto elim: Ints_cases)
  then have "\<bar>a\<bar> = real (nat \<bar>n\<bar>)" by simp
  then have "\<bar>a\<bar> \<in> \<nat>" by (simp only: of_nat_in_Nats)
  then show ?thesis using False assms(2) by (simp add: round_real_def round_mag_nat)
qed

lemma round_mag_normal:
  assumes "2 powi (e + 52) \<le> a" "a < 2 powi (e + 53)" "- 1074 \<le> e" "e \<le> 970"
    "round_even (a / 2 powi e) = m" "0 < m" "m \<le> 2 ^ 53"
  shows "round_mag neg a = Finite (if neg then - (of_int m * 2 powi e) else of_int m * 2 powi e)"
proof -
  have ex: "expo a = e" using assms(1-3) by (rule expo_eqI)
  have pos: "0 < a" using assms(1) two_powi_pos [of "e + 52"] by linarith
  have "real_of_int m \<le> 2 ^ 53" using assms(7) by (metis of_int_le_iff of_int_numeral of_int_power)
  then have "of_int m * 2 powi e \<le> 2 ^ 53 * (2::real) powi e" by simp
  also have "\<dots> = 2 powi (e + 53)" by (simp add: two_powi_add)
  also have "\<dots> \<le> 2 powi 1023" using assms(4) by (intro two_powi_mono) simp
  also have "\<dots> < (2::real) ^ 1024" by simp
  finally have lt: "of_int m * 2 powi e < (2::real) ^ 1024" .
  have ne: "of_int m * 2 powi e \<noteq> (0::real)" using assms(6) by simp
  show ?thesis using pos lt ne by (simp add: round_mag_def Let_def ex assms(5))
qed

lemma round_mag_overflow:
  assumes "2 powi (e + 52) \<le> a" "a < 2 powi (e + 53)" "972 \<le> e"
  shows "round_mag neg a = infinity neg"
proof -
  have ex: "expo a = e" using assms by (intro expo_eqI) simp_all
  have pos: "0 < a" using assms(1) two_powi_pos [of "e + 52"] by linarith
  have "(2::real) ^ 52 = 2 powi (e + 52) / 2 powi e" by (simp add: two_powi_add)
  also have "\<dots> \<le> a / 2 powi e" using assms(1) by (simp add: divide_right_mono)
  finally have "(2::int) ^ 52 \<le> \<lfloor>a / 2 powi e\<rfloor>" by (simp add: le_floor_iff)
  then have "(2::int) ^ 52 \<le> round_even (a / 2 powi e)"
    using floor_le_round_even [of "a / 2 powi e"] by linarith
  then have "(2::real) ^ 52 \<le> of_int (round_even (a / 2 powi e))"
    by (metis of_int_le_iff of_int_numeral of_int_power)
  then have "2 ^ 52 * 2 powi e \<le> of_int (round_even (a / 2 powi e)) * (2::real) powi e"
    by simp
  moreover have "(2::real) ^ 1024 \<le> 2 ^ 52 * 2 powi e"
  proof -
    have "(2::real) powi 1024 \<le> 2 powi (e + 52)" using assms(3) by (intro two_powi_mono) simp
    then show ?thesis by (simp add: two_powi_add mult.commute)
  qed
  ultimately have "(2::real) ^ 1024 \<le> of_int (round_even (a / 2 powi e)) * 2 powi e" by linarith
  then show ?thesis using pos by (simp add: round_mag_def Let_def ex)
qed

lemma round_even_le: "round_even y \<le> \<lfloor>y\<rfloor> + 1"
  by (simp add: round_even_def Let_def)

lemma round_mag_0 [simp]: "round_mag neg 0 = signed_zero neg"
  by (simp add: round_mag_def)


lemma round_mag_scaled:
  assumes "2 ^ 52 \<le> a * 2 ^ n" "a * 2 ^ n < 2 ^ 53" "n \<le> 1074" "round_even (a * 2 ^ n) = m"
  shows "round_mag neg a = Finite (if neg then - (of_int m / 2 ^ n) else of_int m / 2 ^ n)"
proof -
  let ?e = "- int n"
  have p: "(2::real) powi ?e = 1 / 2 ^ n" by (simp add: power_int_minus divide_inverse)
  have d: "a / 2 powi ?e = a * 2 ^ n" by (simp add: p)
  have e52: "(2::real) powi (?e + 52) = 2 ^ 52 / 2 ^ n"
    and e53: "(2::real) powi (?e + 53) = 2 ^ 53 / 2 ^ n"
    unfolding two_powi_add p by simp_all
  have "2 ^ 52 / 2 ^ n \<le> a" using assms(1) by (simp add: pos_divide_le_eq)
  then have b1: "2 powi (?e + 52) \<le> a" by (simp only: e52)
  have "a < 2 ^ 53 / 2 ^ n" using assms(2) by (simp add: pos_less_divide_eq)
  then have b2: "a < 2 powi (?e + 53)" by (simp only: e53)
  have "(4503599627370496::int) \<le> \<lfloor>a * 2 ^ n\<rfloor>" using assms(1) by (simp add: le_floor_iff)
  then have m0: "0 < m" using floor_le_round_even [of "a * 2 ^ n"] assms(4) by linarith
  have "\<lfloor>a * 2 ^ n\<rfloor> < (9007199254740992::int)" using assms(2) by (simp add: floor_less_iff)
  then have "m \<le> 9007199254740992" using round_even_le [of "a * 2 ^ n"] assms(4) by linarith
  then have m1: "m \<le> 2 ^ 53" by simp
  have "round_mag neg a = Finite (if neg then - (of_int m * 2 powi ?e) else of_int m * 2 powi ?e)"
    using b1 b2 _ _ _ m0 m1
  proof (rule round_mag_normal)
    show "- 1074 \<le> ?e" using assms(3) by simp
    show "?e \<le> 970" by simp
    show "round_even (a / 2 powi ?e) = m" using assms(4) by (simp only: d)
  qed
  then show ?thesis by (simp add: p)
qed

lemma round_mag_2_1024: "round_mag neg (2 ^ 1024) = infinity neg"
proof -
  have "round_mag neg (2 powi 1024) = infinity neg"
    by (rule round_mag_overflow [of 972]) simp_all
  then show ?thesis by simp
qed

lemma round_mag_sqrt:
  assumes "0 \<le> q" "(of_int M - 1/2)\<^sup>2 < q * 4 ^ n" "q * 4 ^ n < (of_int M + 1/2)\<^sup>2"
    "4503599627370496 < M" "M < 9007199254740992" "n \<le> 1074"
  shows "round_mag False (sqrt q) = Finite (of_int M / 2 ^ n)"
proof -
  have y: "sqrt q * 2 ^ n = sqrt (q * 4 ^ n)"
  proof -
    have "(4::real) ^ n = (2 ^ n)\<^sup>2" by (simp add: power2_eq_square flip: power_mult_distrib)
    then show ?thesis by (simp add: real_sqrt_mult)
  qed
  have lo: "of_int M - 1/2 < sqrt q * 2 ^ n"
    unfolding y using assms(2) by (rule real_less_rsqrt)
  have "(0::real) \<le> of_int M + 1/2" using assms(4) by simp
  then have hi: "sqrt q * 2 ^ n < of_int M + 1/2"
    unfolding y using assms(3) by (rule real_less_lsqrt)
  have r: "round_even (sqrt q * 2 ^ n) = M" using lo hi by (rule round_even_eqI)
  have "(4503599627370496::real) + 1 \<le> of_int M" "real_of_int M \<le> 9007199254740992 - 1"
    using assms(4,5) by linarith+
  then have b: "2 ^ 52 \<le> sqrt q * 2 ^ n" "sqrt q * 2 ^ n < 2 ^ 53"
    using lo hi by simp_all
  show ?thesis
    using round_mag_scaled [OF b assms(6) r, of False] by simp
qed

text \<open>Integers below \<open>2 ^ 53\<close> in magnitude are rounded to themselves.\<close>

lemmas small_values =
  round_real_int round_mag_nat round_real_def f_sub_def f_mul_def f_div_def
  signed_zero_def infinity_def

section \<open>Sums along axis 0\<close>

lemma length_foldl_map2:
  "list_all (\<lambda>r. length r = k) rs \<Longrightarrow> length acc = k \<Longrightarrow>
   length (foldl (\<lambda>acc r. map2 f acc r) acc rs) = k"
  by (induction rs arbitrary: acc) auto

lemma nth_foldl_map2:
  "list_all (\<lambda>r. length r = k) rs \<Longrightarrow> length acc = k \<Longrightarrow> c < k \<Longrightarrow>
   foldl (\<lambda>acc r. map2 f acc r) acc rs ! c = foldl f (acc ! c) (map (\<lambda>r. r ! c) rs)"
  by (induction rs arbitrary: acc) auto

lemma length_np_sum_axis0: "wf_array X \<Longrightarrow> length (np_sum_axis0 X) = ncols X"
  by (simp add: np_sum_axis0_def wf_array_def length_foldl_map2)

lemma nth_np_sum_axis0:
  "wf_array X \<Longrightarrow> c < ncols X \<Longrightarrow> np_sum_axis0 X ! c = foldl f_add (Finite 0) (column X c)"
  by (simp add: np_sum_axis0_def wf_array_def nth_foldl_map2 column_def)

lemma wf_array_nth: "wf_array X \<Longrightarrow> r < nrows X \<Longrightarrow> length (rows X ! r) = ncols X"
  by (simp add: wf_array_def list_all_length nrows_def)


section \<open>The mean and the standard deviation, column by column\<close>

lemma length_np_mean_axis0: "wf_array X \<Longrightarrow> length (np_mean_axis0 X) = ncols X"
  by (simp add: np_mean_axis0_def length_np_sum_axis0)


lemma nth_np_mean_axis0:
  assumes "wf_array X" "c < ncols X"
  shows "np_mean_axis0 X ! c = f_div (foldl f_add (Finite 0) (column X c)) (Finite (real (nrows X)))"
  using assms
  by (simp add: np_mean_axis0_def length_np_sum_axis0 nth_np_sum_axis0)

lemma wf_array_squares:
  "wf_array X \<Longrightarrow> length m = ncols X \<Longrightarrow>
   wf_array \<lparr>ncols = ncols X, rows = map (map (\<lambda>v. f_mul v v)) (map (\<lambda>r. map2 f_sub r m) (rows X))\<rparr>"
  by (simp add: wf_array_def list_all_iff)

lemma column_squares:
  "wf_array X \<Longrightarrow> length m = ncols X \<Longrightarrow> c < ncols X \<Longrightarrow>
   column \<lparr>ncols = ncols X, rows = map (map (\<lambda>v. f_mul v v)) (map (\<lambda>r. map2 f_sub r m) (rows X))\<rparr> c
     = map (\<lambda>v. f_mul (f_sub v (m ! c)) (f_sub v (m ! c))) (column X c)"
  by (simp add: wf_array_def list_all_iff column_def)

lemma length_np_std_axis0: "wf_array X \<Longrightarrow> length (np_std_axis0 X) = ncols X"
  by (simp add: np_std_axis0_def Let_def length_np_sum_axis0 wf_array_squares length_np_mean_axis0
      del: map_map)


lemma nth_np_std_axis0:
  assumes "wf_array X" "c < ncols X"
  shows "np_std_axis0 X ! c
     = f_sqrt (f_div (foldl f_add (Finite 0)
                        (map (\<lambda>v. f_mul (f_sub v (np_mean_axis0 X ! c)) (f_sub v (np_mean_axis0 X ! c)))
                           (column X c)))
                     (Finite (real (nrows X))))"
proof -
  let ?m = "np_mean_axis0 X"
  let ?S = "\<lparr>ncols = ncols X, rows = map (map (\<lambda>v. f_mul v v)) (map (\<lambda>r. map2 f_sub r ?m) (rows X))\<rparr>"
  have lm: "length ?m = ncols X" using assms(1) by (rule length_np_mean_axis0)
  have wfS: "wf_array ?S" using assms(1) lm by (rule wf_array_squares)
  have col: "column ?S c = map (\<lambda>v. f_mul (f_sub v (?m ! c)) (f_sub v (?m ! c))) (column X c)"
    using assms(1) lm assms(2) by (rule column_squares)
  have "np_sum_axis0 ?S ! c = foldl f_add (Finite 0) (column ?S c)"
    using wfS assms(2) by (simp add: nth_np_sum_axis0 del: map_map)
  then have sum: "np_sum_axis0 ?S ! c
      = foldl f_add (Finite 0) (map (\<lambda>v. f_mul (f_sub v (?m ! c)) (f_sub v (?m ! c))) (column X c))"
    by (simp only: col)
  have lenS: "length (np_sum_axis0 ?S) = ncols X"
    using wfS by (simp add: length_np_sum_axis0 del: map_map)
  have "np_std_axis0 X ! c = f_sqrt (f_div (np_sum_axis0 ?S ! c) (Finite (real (nrows X))))"
    using assms(2) lenS by (simp add: np_std_axis0_def Let_def del: map_map)
  then show ?thesis by (simp only: sum)
qed

text \<open>Adding from the first value to the last is one way of summing.\<close>

lemma float_sum_of_foldl:
  "float_sum_of as a \<Longrightarrow> float_sum_of (as @ xs) (foldl f_add a xs)"
proof (induction xs arbitrary: as a)
  case Nil
  then show ?case by simp
next
  case (Cons x xs)
  have "float_sum_of (as @ [x]) (f_add a x)"
    using Cons.prems float_sum_of.single by (rule float_sum_of.add)
  then have "float_sum_of ((as @ [x]) @ xs) (foldl f_add (f_add a x) xs)"
    by (rule Cons.IH)
  then show ?case by simp
qed

lemma float_sum_of_sequential: "float_sum_of xs (foldl f_add (Finite 0) xs)"
  using float_sum_of_foldl [OF float_sum_of.empty_pos, of xs] by simp

section \<open>What the methods return\<close>

lemma fit_result:
  "fit h self X y =
     Inr (self, h(self := \<lparr>mean_attr = Some (np_mean_axis0 X), std_attr = Some (np_std_axis0 X)\<rparr>))"
  by (cases "h self") (simp add: fit_def Let_def)

lemma stretch_same: "length v = k \<Longrightarrow> stretch k v = v"
  by (cases v; cases "tl v") (auto simp: stretch_def)

lemma np_binop_same_cols:
  assumes "wf_array X" "length v = ncols X"
  shows "np_binop f X (Some v) = Inr \<lparr>ncols = ncols X, rows = map (\<lambda>r. map2 f r v) (rows X)\<rparr>"
proof -
  have "\<forall>r \<in> set (rows X). stretch (ncols X) r = r"
    using assms(1) by (simp add: wf_array_def list_all_iff stretch_same)
  moreover have "stretch (ncols X) v = v" using assms(2) by (rule stretch_same)
  ultimately show ?thesis
    using assms(2) by (simp add: np_binop_def broadcast_cols_def)
qed

lemma wf_array_map2:
  "wf_array X \<Longrightarrow> length v = ncols X \<Longrightarrow>
   wf_array \<lparr>ncols = ncols X, rows = map (\<lambda>r. map2 f r v) (rows X)\<rparr>"
  by (simp add: wf_array_def list_all_iff)

lemma transform_fitted:
  assumes "wf_array X" "mean_attr (h self) = Some ms" "std_attr (h self) = Some ss"
    "length ms = ncols X" "length ss = ncols X"
  shows "transform h self X =
    Inr (\<lparr>ncols = ncols X, rows = map (\<lambda>r. map2 f_div (map2 f_sub r ms) ss) (rows X)\<rparr>, h)"
proof -
  let ?D = "\<lparr>ncols = ncols X, rows = map (\<lambda>r. map2 f_sub r ms) (rows X)\<rparr>"
  have d: "np_binop f_sub X (Some ms) = Inr ?D"
    using assms(1,4) by (rule np_binop_same_cols)
  have "wf_array ?D" using assms(1,4) by (rule wf_array_map2)
  moreover have "length ss = ncols ?D" using assms(5) by simp
  ultimately have "np_binop f_div ?D (Some ss) =
      Inr \<lparr>ncols = ncols ?D, rows = map (\<lambda>r. map2 f_div r ss) (rows ?D)\<rparr>"
    by (rule np_binop_same_cols)
  then show ?thesis
    by (simp add: transform_def assms(2,3) d comp_def)
qed

lemma not_finite_div_zero: "\<not> is_finite (f_div d (Finite 0))"
  by (cases d) (simp_all add: f_div_def infinity_def)


text \<open>A call of \<open>fit\<close> leaves the instance fitted, with one entry per column.\<close>

lemma fitted_after_fit:
  assumes "wf_array D" "fit h0 self D y = Inr (r, h)"
  shows "r = self \<and> (\<exists>ms ss. mean_attr (h self) = Some ms \<and> std_attr (h self) = Some ss \<and>
           length ms = ncols D \<and> length ss = ncols D)"
  using assms by (auto simp: fit_result length_np_mean_axis0 length_np_std_axis0)


section \<open>Standardisation in exact arithmetic\<close>





section \<open>fit\<close>

text \<open>
  C1, as the specification has it: \<open>fit\<close> stores the arithmetic mean and the population
  standard deviation of every column. The code computes both in float64. For a column of
  two values \<open>2 ^ 1023\<close> the sum overflows: the stored mean and spread are infinite, where
  the arithmetic mean is \<open>2 ^ 1023\<close> and the population standard deviation is 0.
\<close>

theorem fit_overflow_counterexample:
  "fit fresh_store 0 \<lparr>ncols = 1, rows = [[Finite (2 ^ 1023)], [Finite (2 ^ 1023)]]\<rparr> (None :: unit option)
     = Inr (0, fresh_store(0 := \<lparr>mean_attr = Some [PosInf], std_attr = Some [PosInf]\<rparr>)) \<and>
   arith_mean [2 ^ 1023, 2 ^ 1023] = 2 ^ 1023 \<and> pop_std [2 ^ 1023, 2 ^ 1023] = 0"
proof -
  define big :: real where "big = 2 ^ 1023"
  have pos: "0 < big" by (simp add: big_def)
  have a: "round_mag False big = Finite big"
    using round_mag_dyadic [of 1 1023 False] by (simp add: big_def)
  have b: "round_mag False (2 * big) = PosInf"
    using round_mag_2_1024 [of False] by (simp add: infinity_def big_def)
  have "fit fresh_store 0 \<lparr>ncols = 1, rows = [[Finite big], [Finite big]]\<rparr> (None :: unit option)
     = Inr (0, fresh_store(0 := \<lparr>mean_attr = Some [PosInf], std_attr = Some [PosInf]\<rparr>))"
    using pos
    by (simp add: fit_result np_mean_axis0_def np_std_axis0_def np_sum_axis0_def nrows_def
        Let_def round_real_def f_sub_def f_mul_def f_div_def infinity_def a b)
  moreover have "arith_mean [big, big] = big \<and> pop_std [big, big] = 0"
    by (simp add: arith_mean_def pop_std_def)
  ultimately show ?thesis unfolding big_def by (rule conjI)
qed

text \<open>
  C1, amended: for every dataset with at least one row, \<open>fit\<close> returns the reference it was
  called on and changes the store at that reference only, where it stores one mean and
  one spread per feature column. For each column, the stored mean is a float64 sum of
  the values of the column divided in float64 by the row count, and the stored spread is
  the float64 square root of the float64 quotient, by the row count (not the row count
  minus one), of a float64 sum of the float64 squares of the float64 differences between
  the values of the column and its stored mean.
\<close>

theorem fit_computes_float_mean_and_pop_std:
  assumes "wf_array X" "rows X \<noteq> []"
  shows "\<exists>ms ss.
     fit h self X y = Inr (self, h(self := \<lparr>mean_attr = Some ms, std_attr = Some ss\<rparr>)) \<and>
     length ms = ncols X \<and> length ss = ncols X \<and>
     (\<forall>c<ncols X. \<exists>s t.
        float_sum_of (column X c) s \<and>
        ms ! c = f_div s (Finite (real (nrows X))) \<and>
        float_sum_of (map (\<lambda>v. f_mul (f_sub v (ms ! c)) (f_sub v (ms ! c))) (column X c)) t \<and>
        ss ! c = f_sqrt (f_div t (Finite (real (nrows X)))))"
proof -
  have "fit h self X y =
      Inr (self, h(self := \<lparr>mean_attr = Some (np_mean_axis0 X), std_attr = Some (np_std_axis0 X)\<rparr>))"
    by (rule fit_result)
  moreover have "\<exists>s t.
        float_sum_of (column X c) s \<and>
        np_mean_axis0 X ! c = f_div s (Finite (real (nrows X))) \<and>
        float_sum_of (map (\<lambda>v. f_mul (f_sub v (np_mean_axis0 X ! c)) (f_sub v (np_mean_axis0 X ! c)))
                        (column X c)) t \<and>
        np_std_axis0 X ! c = f_sqrt (f_div t (Finite (real (nrows X))))"
    if "c < ncols X" for c
    using nth_np_mean_axis0 [OF assms(1) that] nth_np_std_axis0 [OF assms(1) that]
      float_sum_of_sequential
    by blast
  ultimately show ?thesis
    using assms(1) length_np_mean_axis0 length_np_std_axis0 by blast
qed

theorem fit_computes_float_mean_and_pop_std_witness:
  "wf_array \<lparr>ncols = 1, rows = [[Finite 1], [Finite 3]]\<rparr> \<and>
   rows \<lparr>ncols = 1, rows = [[Finite 1], [Finite 3]]\<rparr> \<noteq> [] \<and>
   (\<exists>ms ss s t.
      fit fresh_store 0 \<lparr>ncols = 1, rows = [[Finite 1], [Finite 3]]\<rparr> (None :: unit option)
        = Inr (0, fresh_store(0 := \<lparr>mean_attr = Some ms, std_attr = Some ss\<rparr>)) \<and>
      length ms = 1 \<and> length ss = 1 \<and>
      float_sum_of [Finite 1, Finite 3] s \<and> ms ! 0 = f_div s (Finite 2) \<and>
      float_sum_of [f_mul (f_sub (Finite 1) (ms ! 0)) (f_sub (Finite 1) (ms ! 0)),
                    f_mul (f_sub (Finite 3) (ms ! 0)) (f_sub (Finite 3) (ms ! 0))] t \<and>
      ss ! 0 = f_sqrt (f_div t (Finite 2)))"
proof -
  let ?X = "\<lparr>ncols = 1, rows = [[Finite 1], [Finite 3]]\<rparr>"
  have wf: "wf_array ?X" by (simp add: wf_array_def)
  have ne: "rows ?X \<noteq> []" by simp
  show ?thesis
    using wf ne fit_computes_float_mean_and_pop_std [OF wf ne, of fresh_store 0 "None :: unit option"]
    by (simp add: column_def nrows_def)
qed

text \<open>
  C9, as the specification has it: \<open>fit\<close> on a dataset with zero rows fails. The code has no
  check on its input, and numpy's mean and standard deviation of an empty slice are NaN:
  on an array of shape \<open>(0, 2)\<close> the call returns normally.
\<close>

theorem fit_zero_rows_counterexample:
  "fit fresh_store 0 \<lparr>ncols = 2, rows = []\<rparr> (None :: unit option)
     = Inr (0, fresh_store(0 := \<lparr>mean_attr = Some [NaN, NaN], std_attr = Some [NaN, NaN]\<rparr>))"
  by (simp add: fit_result np_mean_axis0_def np_std_axis0_def np_sum_axis0_def nrows_def
      small_values Let_def eval_nat_numeral)

text \<open>
  C9, amended: \<open>fit\<close> on a dataset with zero rows does not fail. It returns the reference it
  was called on, and the stored mean and spread of every column are NaN.
\<close>

theorem fit_zero_rows_stores_nan:
  "rows X = [] \<Longrightarrow>
   fit h self X y =
     Inr (self, h(self := \<lparr>mean_attr = Some (replicate (ncols X) NaN),
                           std_attr = Some (replicate (ncols X) NaN)\<rparr>))"
  by (simp add: fit_result np_mean_axis0_def np_std_axis0_def np_sum_axis0_def nrows_def
      small_values Let_def)

theorem fit_zero_rows_stores_nan_witness:
  "rows \<lparr>ncols = 1, rows = []\<rparr> = [] \<and>
   fit fresh_store 3 \<lparr>ncols = 1, rows = []\<rparr> (None :: unit option)
     = Inr (3, fresh_store(3 := \<lparr>mean_attr = Some [NaN], std_attr = Some [NaN]\<rparr>))"
  using fit_zero_rows_stores_nan [of "\<lparr>ncols = 1, rows = []\<rparr>" fresh_store 3 "None :: unit option"]
  by simp

text \<open>
  C10. The argument \<open>y\<close> is never read: two calls of \<open>fit\<close> that differ in \<open>y\<close> only return
  the same reference and the same store, and two such calls of \<open>fit_transform\<close> return the
  same dataset and the same store.
\<close>

theorem fit_ignores_y:
  "fit h self X y1 = fit h self X y2 \<and> fit_transform h self X y1 = fit_transform h self X y2"
  by (simp add: fit_def fit_transform_def)

section \<open>transform\<close>

text \<open>
  C2. For a transformer whose stored mean and spread have as many entries as the dataset
  has columns, \<open>transform\<close> returns a dataset with the row and column counts of its input,
  whose element at row \<open>r\<close> and column \<open>c\<close> is \<open>(value - mean[c]) / spread[c]\<close>, and it returns
  the store as it was. Arrays are values here: the numpy operators build their results
  in new arrays and write neither operand. A call of \<open>fit\<close> on a dataset of that column
  count establishes the hypotheses on the stored statistics (\<open>fitted_after_fit\<close>).
\<close>

theorem transform_elementwise:
  assumes "wf_array X" "mean_attr (h self) = Some ms" "std_attr (h self) = Some ss"
    "length ms = ncols X" "length ss = ncols X"
  shows "\<exists>Z. transform h self X = Inr (Z, h) \<and>
    wf_array Z \<and> nrows Z = nrows X \<and> ncols Z = ncols X \<and>
    (\<forall>r<nrows X. \<forall>c<ncols X.
       rows Z ! r ! c = f_div (f_sub (rows X ! r ! c) (ms ! c)) (ss ! c))"
proof -
  let ?Z = "\<lparr>ncols = ncols X, rows = map (\<lambda>r. map2 f_div (map2 f_sub r ms) ss) (rows X)\<rparr>"
  have "transform h self X = Inr (?Z, h)" using assms by (rule transform_fitted)
  moreover have "wf_array ?Z"
    using assms(1,4,5) by (simp add: wf_array_def list_all_iff)
  moreover have "nrows ?Z = nrows X" by (simp add: nrows_def)
  moreover have "rows ?Z ! r ! c = f_div (f_sub (rows X ! r ! c) (ms ! c)) (ss ! c)"
    if "r < nrows X" "c < ncols X" for r c
    using that assms(4,5) wf_array_nth [OF assms(1) that(1)] by (simp add: nrows_def)
  ultimately show ?thesis by (intro exI [of _ ?Z]) simp
qed

theorem transform_elementwise_witness:
  "wf_array \<lparr>ncols = 1, rows = [[Finite 1], [Finite 3]]\<rparr> \<and>
   mean_attr ((fresh_store(0 := \<lparr>mean_attr = Some [Finite 2], std_attr = Some [Finite 1]\<rparr>)) 0)
     = Some [Finite 2] \<and>
   std_attr ((fresh_store(0 := \<lparr>mean_attr = Some [Finite 2], std_attr = Some [Finite 1]\<rparr>)) 0)
     = Some [Finite 1] \<and>
   (\<exists>Z. transform (fresh_store(0 := \<lparr>mean_attr = Some [Finite 2], std_attr = Some [Finite 1]\<rparr>)) 0
           \<lparr>ncols = 1, rows = [[Finite 1], [Finite 3]]\<rparr>
         = Inr (Z, fresh_store(0 := \<lparr>mean_attr = Some [Finite 2], std_attr = Some [Finite 1]\<rparr>)) \<and>
        nrows Z = 2 \<and> ncols Z = 1 \<and>
        rows Z ! 0 ! 0 = Finite (- 1) \<and> rows Z ! 1 ! 0 = Finite 1)"
proof -
  let ?X = "\<lparr>ncols = 1, rows = [[Finite 1], [Finite 3]]\<rparr>"
  let ?h = "fresh_store(0 := \<lparr>mean_attr = Some [Finite 2], std_attr = Some [Finite 1]\<rparr>)"
  have wf: "wf_array ?X" by (simp add: wf_array_def)
  have m: "mean_attr (?h 0) = Some [Finite 2]" by simp
  have s: "std_attr (?h 0) = Some [Finite 1]" by simp
  have n: "nrows ?X = 2" by (simp add: nrows_def)
  obtain Z where t: "transform ?h 0 ?X = Inr (Z, ?h)"
    and shape: "nrows Z = nrows ?X" "ncols Z = ncols ?X"
    and el: "\<forall>r<nrows ?X. \<forall>c<ncols ?X.
       rows Z ! r ! c = f_div (f_sub (rows ?X ! r ! c) ([Finite 2] ! c)) ([Finite 1] ! c)"
    using transform_elementwise [of ?X ?h 0 "[Finite 2]" "[Finite 1]"] wf m s by auto
  from el n have "rows Z ! 0 ! 0 = Finite (- 1)" "rows Z ! 1 ! 0 = Finite 1"
    by (simp_all add: small_values)
  with t shape n wf m s show ?thesis by (intro conjI exI [of _ Z]) simp_all
qed

text \<open>
  C6, as the specification has it: for every dataset, \<open>transform\<close> on an instance that was
  never fitted fails. The code has no check of its state; the failure comes from the
  arithmetic on None, which numpy carries out element by element. On a dataset without
  elements nothing is computed and the call returns an empty dataset.
\<close>

theorem transform_unfitted_empty_counterexample:
  "fresh_store 0 = init \<and>
   transform fresh_store 0 \<lparr>ncols = 2, rows = []\<rparr> = Inr (\<lparr>ncols = 2, rows = []\<rparr>, fresh_store)"
  by (simp add: transform_def fresh_store_def init_def np_binop_def nrows_def)

text \<open>
  C6, amended: for every dataset with at least one row and at least one column,
  \<open>transform\<close> on an instance that was never fitted fails, and the error is Python's
  TypeError; for every dataset with no row or no column, it returns that dataset and
  leaves the store as it was.
\<close>

theorem transform_unfitted:
  assumes "h self = init"
  shows "(rows X \<noteq> [] \<and> 0 < ncols X \<longrightarrow> transform h self X = Inl TypeError) \<and>
         (rows X = [] \<or> ncols X = 0 \<longrightarrow> transform h self X = Inr (X, h))"
  using assms by (auto simp: transform_def init_def np_binop_def nrows_def)

theorem transform_unfitted_witness:
  "fresh_store 0 = init \<and>
   transform fresh_store 0 \<lparr>ncols = 1, rows = [[Finite 4]]\<rparr> = Inl TypeError \<and>
   transform fresh_store 0 \<lparr>ncols = 0, rows = [[], []]\<rparr>
     = Inr (\<lparr>ncols = 0, rows = [[], []]\<rparr>, fresh_store) \<and>
   transform fresh_store 0 \<lparr>ncols = 3, rows = []\<rparr> = Inr (\<lparr>ncols = 3, rows = []\<rparr>, fresh_store)"
proof -
  have i: "fresh_store 0 = init" by (simp add: fresh_store_def)
  show ?thesis
    using i transform_unfitted [of fresh_store 0 "\<lparr>ncols = 1, rows = [[Finite 4]]\<rparr>"]
      transform_unfitted [of fresh_store 0 "\<lparr>ncols = 0, rows = [[], []]\<rparr>"]
      transform_unfitted [of fresh_store 0 "\<lparr>ncols = 3, rows = []\<rparr>"]
    by simp
qed

text \<open>
  C8, as the specification has it: \<open>transform\<close> on a dataset whose column count differs
  from the fitted one fails. The code has no check of the shape; numpy's broadcasting
  decides. A transformer fitted on one column accepts a dataset of two columns and
  applies the single mean and spread to both.
\<close>

theorem transform_broadcast_counterexample:
  "fit fresh_store 0 \<lparr>ncols = 1, rows = [[Finite 1], [Finite 3]]\<rparr> (None :: unit option)
     = Inr (0, fresh_store(0 := \<lparr>mean_attr = Some [Finite 2], std_attr = Some [Finite 1]\<rparr>)) \<and>
   transform (fresh_store(0 := \<lparr>mean_attr = Some [Finite 2], std_attr = Some [Finite 1]\<rparr>)) 0
       \<lparr>ncols = 2, rows = [[Finite 1, Finite 3]]\<rparr>
     = Inr (\<lparr>ncols = 2, rows = [[Finite (- 1), Finite 1]]\<rparr>,
            fresh_store(0 := \<lparr>mean_attr = Some [Finite 2], std_attr = Some [Finite 1]\<rparr>))"
  by (simp add: fit_result np_mean_axis0_def np_std_axis0_def np_sum_axis0_def nrows_def
      transform_def np_binop_def broadcast_cols_def stretch_def Let_def small_values
      eval_nat_numeral)

text \<open>
  C8, amended: for a fitted transformer, \<open>transform\<close> on a dataset whose column count
  differs from the fitted one fails with Python's ValueError when neither of the two
  counts is 1; when one of them is 1, numpy broadcasts and \<open>transform\<close> returns a dataset.
\<close>

theorem transform_column_mismatch:
  assumes "mean_attr (h self) = Some ms" "std_attr (h self) = Some ss"
    "length ms = k" "length ss = k"
  shows "(ncols X \<noteq> k \<and> ncols X \<noteq> 1 \<and> k \<noteq> 1 \<longrightarrow> transform h self X = Inl ValueError) \<and>
         (ncols X = 1 \<or> k = 1 \<longrightarrow> (\<exists>Z. transform h self X = Inr (Z, h)))"
  using assms by (auto simp: transform_def np_binop_def broadcast_cols_def)

theorem transform_column_mismatch_witness:
  "mean_attr ((fresh_store(0 := \<lparr>mean_attr = Some [Finite 2, Finite 20],
                                 std_attr = Some [Finite 1, Finite 10]\<rparr>)) 0)
     = Some [Finite 2, Finite 20] \<and>
   std_attr ((fresh_store(0 := \<lparr>mean_attr = Some [Finite 2, Finite 20],
                                std_attr = Some [Finite 1, Finite 10]\<rparr>)) 0)
     = Some [Finite 1, Finite 10] \<and>
   ncols \<lparr>ncols = 3, rows = [[Finite 1, Finite 2, Finite 3]]\<rparr> \<noteq> 2 \<and>
   transform (fresh_store(0 := \<lparr>mean_attr = Some [Finite 2, Finite 20],
                                 std_attr = Some [Finite 1, Finite 10]\<rparr>)) 0
       \<lparr>ncols = 3, rows = [[Finite 1, Finite 2, Finite 3]]\<rparr> = Inl ValueError \<and>
   (\<exists>Z. transform (fresh_store(0 := \<lparr>mean_attr = Some [Finite 2, Finite 20],
                                       std_attr = Some [Finite 1, Finite 10]\<rparr>)) 0
           \<lparr>ncols = 1, rows = [[Finite 1]]\<rparr>
         = Inr (Z, fresh_store(0 := \<lparr>mean_attr = Some [Finite 2, Finite 20],
                                       std_attr = Some [Finite 1, Finite 10]\<rparr>)))"
proof -
  let ?h = "fresh_store(0 := \<lparr>mean_attr = Some [Finite 2, Finite 20],
                               std_attr = Some [Finite 1, Finite 10]\<rparr>)"
  have m: "mean_attr (?h 0) = Some [Finite 2, Finite 20]" by simp
  have s: "std_attr (?h 0) = Some [Finite 1, Finite 10]" by simp
  have "transform ?h 0 \<lparr>ncols = 3, rows = [[Finite 1, Finite 2, Finite 3]]\<rparr> = Inl ValueError"
    using transform_column_mismatch
      [of ?h 0 "[Finite 2, Finite 20]" "[Finite 1, Finite 10]" 2
          "\<lparr>ncols = 3, rows = [[Finite 1, Finite 2, Finite 3]]\<rparr>"]
    by simp
  moreover have "\<exists>Z. transform ?h 0 \<lparr>ncols = 1, rows = [[Finite 1]]\<rparr> = Inr (Z, ?h)"
    using transform_column_mismatch
      [of ?h 0 "[Finite 2, Finite 20]" "[Finite 1, Finite 10]" 2
          "\<lparr>ncols = 1, rows = [[Finite 1]]\<rparr>"]
    by simp
  ultimately show ?thesis using m s by simp
qed

text \<open>
  C7, as the specification has it: with a stored spread of exactly zero, \<open>transform\<close> fails
  with a division error. The code divides with numpy, which does not raise on a zero
  divisor: fitted on a constant column and applied to it, \<open>transform\<close> returns NaN values.
\<close>

theorem transform_zero_spread_counterexample:
  "fit fresh_store 0 \<lparr>ncols = 1, rows = [[Finite 5], [Finite 5]]\<rparr> (None :: unit option)
     = Inr (0, fresh_store(0 := \<lparr>mean_attr = Some [Finite 5], std_attr = Some [Finite 0]\<rparr>)) \<and>
   transform (fresh_store(0 := \<lparr>mean_attr = Some [Finite 5], std_attr = Some [Finite 0]\<rparr>)) 0
       \<lparr>ncols = 1, rows = [[Finite 5], [Finite 5]]\<rparr>
     = Inr (\<lparr>ncols = 1, rows = [[NaN], [NaN]]\<rparr>,
            fresh_store(0 := \<lparr>mean_attr = Some [Finite 5], std_attr = Some [Finite 0]\<rparr>))"
  by (simp add: fit_result np_mean_axis0_def np_std_axis0_def np_sum_axis0_def nrows_def
      transform_def np_binop_def broadcast_cols_def stretch_def small_values Let_def)

text \<open>
  C7, amended: for a fitted transformer whose stored spread of column \<open>c\<close> is exactly zero,
  \<open>transform\<close> on a dataset of the fitted column count does not fail: it returns a dataset
  in which no element of column \<open>c\<close> is a finite number (each is NaN or an infinity).
\<close>

theorem transform_zero_spread_not_finite:
  assumes "wf_array X" "mean_attr (h self) = Some ms" "std_attr (h self) = Some ss"
    "length ms = ncols X" "length ss = ncols X" "c < ncols X" "ss ! c = Finite 0"
  shows "\<exists>Z. transform h self X = Inr (Z, h) \<and>
    (\<forall>r<nrows X. \<not> is_finite (rows Z ! r ! c))"
proof -
  let ?Z = "\<lparr>ncols = ncols X, rows = map (\<lambda>r. map2 f_div (map2 f_sub r ms) ss) (rows X)\<rparr>"
  have "transform h self X = Inr (?Z, h)" using assms(1-5) by (rule transform_fitted)
  moreover have "\<not> is_finite (rows ?Z ! r ! c)" if "r < nrows X" for r
    using that assms(4-7) wf_array_nth [OF assms(1) that]
    by (simp add: nrows_def not_finite_div_zero)
  ultimately show ?thesis by (intro exI [of _ ?Z]) simp
qed

theorem transform_zero_spread_not_finite_witness:
  "wf_array \<lparr>ncols = 1, rows = [[Finite 7]]\<rparr> \<and>
   [Finite (0 :: real)] ! 0 = Finite 0 \<and>
   (\<exists>Z. transform (fresh_store(0 := \<lparr>mean_attr = Some [Finite 5], std_attr = Some [Finite 0]\<rparr>)) 0
           \<lparr>ncols = 1, rows = [[Finite 7]]\<rparr>
         = Inr (Z, fresh_store(0 := \<lparr>mean_attr = Some [Finite 5], std_attr = Some [Finite 0]\<rparr>)) \<and>
        \<not> is_finite (rows Z ! 0 ! 0))"
proof -
  let ?X = "\<lparr>ncols = 1, rows = [[Finite 7]]\<rparr>"
  let ?h = "fresh_store(0 := \<lparr>mean_attr = Some [Finite 5], std_attr = Some [Finite 0]\<rparr>)"
  have wf: "wf_array ?X" by (simp add: wf_array_def)
  have n: "nrows ?X = 1" by (simp add: nrows_def)
  obtain Z where t: "transform ?h 0 ?X = Inr (Z, ?h)"
    and nf: "\<forall>r<nrows ?X. \<not> is_finite (rows Z ! r ! 0)"
    using transform_zero_spread_not_finite [of ?X ?h 0 "[Finite 5]" "[Finite 0]" 0] wf by auto
  from nf n have "\<not> is_finite (rows Z ! 0 ! 0)" by simp
  with t wf show ?thesis by (intro conjI exI [of _ Z]) simp_all
qed

section \<open>fit and transform in one call\<close>

text \<open>
  C3. For every dataset \<open>D\<close>, \<open>fit\<close> returns the instance it was called on together with a
  new store, and \<open>fit_transform\<close> on \<open>D\<close> returns exactly what \<open>transform\<close> on \<open>D\<close> returns when it
  is called on that instance in that store: the same dataset or the same error, and the
  same store.
\<close>

theorem fit_transform_composition:
  "\<exists>h'. fit h self D y = Inr (self, h') \<and> fit_transform h self D y' = transform h' self D"
  by (simp add: fit_def fit_transform_def Let_def)

text \<open>
  C5. Fitting on \<open>[[1,10],[2,20],[3,30]]\<close> stores the means \<open>[2, 20]\<close> and the spreads
  \<open>7354347395230782 / 2 ^ 53\<close> and \<open>4596467122019239 / 2 ^ 49\<close>, the float64 values nearest
  to the square roots of the rounded variances, which are \<open>0.8165\<close> and \<open>8.165\<close> to the four
  significant digits the example prints; transforming \<open>[[2,20]]\<close> with these statistics
  yields \<open>[[0,0]]\<close>.
\<close>

theorem example_three_rows:
  "fit fresh_store 0
       \<lparr>ncols = 2, rows = [[Finite 1, Finite 10], [Finite 2, Finite 20], [Finite 3, Finite 30]]\<rparr>
       (None :: unit option)
     = Inr (0, fresh_store(0 := \<lparr>mean_attr = Some [Finite 2, Finite 20],
                std_attr = Some [Finite (7354347395230782 / 2 ^ 53), Finite (4596467122019239 / 2 ^ 49)]\<rparr>))
   \<and> \<bar>7354347395230782 / 2 ^ 53 - 0.8165\<bar> < (0.00005 :: real)
   \<and> \<bar>4596467122019239 / 2 ^ 49 - 8.165\<bar> < (0.0005 :: real)
   \<and> transform (fresh_store(0 := \<lparr>mean_attr = Some [Finite 2, Finite 20],
                std_attr = Some [Finite (7354347395230782 / 2 ^ 53), Finite (4596467122019239 / 2 ^ 49)]\<rparr>)) 0
         \<lparr>ncols = 2, rows = [[Finite 2, Finite 20]]\<rparr>
     = Inr (\<lparr>ncols = 2, rows = [[Finite 0, Finite 0]]\<rparr>,
            fresh_store(0 := \<lparr>mean_attr = Some [Finite 2, Finite 20],
                std_attr = Some [Finite (7354347395230782 / 2 ^ 53), Finite (4596467122019239 / 2 ^ 49)]\<rparr>))"
proof -
  define v1 :: real where "v1 = 6004799503160661 / 2 ^ 53"
  define s1 :: real where "s1 = 7354347395230782 / 2 ^ 53"
  define v2 :: real where "v2 = 4691249611844267 / 2 ^ 46"
  define s2 :: real where "s2 = 4596467122019239 / 2 ^ 49"
  have pos: "0 < v1" "0 < s1" "0 < v2" "0 < s2"
    by (simp_all add: v1_def s1_def v2_def s2_def)
  have r1: "round_mag False (2 / 3) = Finite v1"
  proof -
    have "round_even (2 / 3 * 2 ^ 53) = 6004799503160661"
      by (rule round_even_eqI) simp_all
    then show ?thesis
      using round_mag_scaled [where a = "2 / 3" and n = 53 and m = 6004799503160661 and neg = False] by (simp add: v1_def)
  qed
  have r2: "round_mag False (sqrt v1) = Finite s1"
    using round_mag_sqrt [where q = v1 and M = 7354347395230782 and n = 53] by (simp add: v1_def s1_def power2_eq_square)
  have r3: "round_mag False (200 / 3) = Finite v2"
  proof -
    have "round_even (200 / 3 * 2 ^ 46) = 4691249611844267"
      by (rule round_even_eqI) simp_all
    then show ?thesis
      using round_mag_scaled [where a = "200 / 3" and n = 46 and m = 4691249611844267 and neg = False] by (simp add: v2_def)
  qed
  have r4: "round_mag False (sqrt v2) = Finite s2"
    using round_mag_sqrt [where q = v2 and M = 4596467122019239 and n = 49] by (simp add: v2_def s2_def power2_eq_square)
  have f: "fit fresh_store 0
       \<lparr>ncols = 2, rows = [[Finite 1, Finite 10], [Finite 2, Finite 20], [Finite 3, Finite 30]]\<rparr>
       (None :: unit option)
     = Inr (0, fresh_store(0 := \<lparr>mean_attr = Some [Finite 2, Finite 20],
                                  std_attr = Some [Finite s1, Finite s2]\<rparr>))"
    using pos
    by (simp add: fit_result np_mean_axis0_def np_std_axis0_def np_sum_axis0_def nrows_def
        Let_def eval_nat_numeral small_values r1 r2 r3 r4)
  have t: "transform (fresh_store(0 := \<lparr>mean_attr = Some [Finite 2, Finite 20],
                                    std_attr = Some [Finite s1, Finite s2]\<rparr>)) 0
         \<lparr>ncols = 2, rows = [[Finite 2, Finite 20]]\<rparr>
     = Inr (\<lparr>ncols = 2, rows = [[Finite 0, Finite 0]]\<rparr>,
            fresh_store(0 := \<lparr>mean_attr = Some [Finite 2, Finite 20],
                                std_attr = Some [Finite s1, Finite s2]\<rparr>))"
    using pos
    by (simp add: transform_def np_binop_def broadcast_cols_def stretch_def small_values)
  have b1: "\<bar>s1 - 0.8165\<bar> < (0.00005 :: real)" unfolding abs_less_iff by (simp add: s1_def)
  have b2: "\<bar>s2 - 8.165\<bar> < (0.0005 :: real)" unfolding abs_less_iff by (simp add: s2_def)
  show ?thesis
    using f b1 b2 t unfolding s1_def s2_def by (intro conjI)
qed




end
